theory Spec2Isabelle
  imports Main
begin

section \<open>Values exchanged with the transfer engine and the I/O service\<close>

text \<open>
  The reactor of \<^verbatim>\<open>src/src/HttpClient.cpp\<close> (\<^verbatim>\<open>HttpClient::Manager\<close>) sits between
  libcurl's multi interface and boost::asio. Both are external: their return codes and
  the transfers they report finished are inputs of the model, and the state they keep for
  the reactor (registered transfers, completion queue, socket association, pending timer
  waits, pending socket operations, posted tasks) is part of the model's state. The calls
  the engine makes back into the reactor (\<^verbatim>\<open>sock_cb\<close>, \<^verbatim>\<open>curl_timer_cb\<close>) are entry points
  of their own, modelled for every state they can be entered in.
\<close>

type_synonym easy = nat
type_synonym socket = nat
type_synonym conn = nat

text \<open>\<^verbatim>\<open>CURLMcode\<close>, \<^verbatim>\<open>CURLcode\<close> and the \<^verbatim>\<open>CURL_POLL_*\<close> interests are C integers.\<close>

definition CURLM_OK :: int where "CURLM_OK = 0"
definition CURLE_OK :: int where "CURLE_OK = 0"

definition CURL_POLL_NONE :: int where "CURL_POLL_NONE = 0"
definition CURL_POLL_IN :: int where "CURL_POLL_IN = 1"
definition CURL_POLL_OUT :: int where "CURL_POLL_OUT = 2"
definition CURL_POLL_INOUT :: int where "CURL_POLL_INOUT = 3"
definition CURL_POLL_REMOVE :: int where "CURL_POLL_REMOVE = 4"

datatype curlmsg_kind = CURLMSG_NONE | CURLMSG_DONE | CURLMSG_LAST

datatype http_method = POST | GET | HEAD | PUT | DELETE' | OPTIONS | TRACE | CONNECT

text \<open>\<^verbatim>\<open>CURLMsg\<close>: the message kind, the easy handle and the transfer's \<^verbatim>\<open>data.result\<close>.\<close>

record curl_msg =
  msg_kind :: curlmsg_kind
  easy_handle :: easy
  data_result :: int

text \<open>
  The text of an exception or of a log line. \<^verbatim>\<open>curl_multi_strerror\<close> and
  \<^verbatim>\<open>curl_easy_strerror\<close> are kept symbolic, with the code they are applied to.
\<close>

datatype message =
    Text string
  | Multi_strerror int
  | Text_multi_strerror string int
  | Text_easy_strerror string int

datatype future_errc = Promise_already_satisfied | Future_already_retrieved

text \<open>
  What can be thrown. \<open>Thrown_by_configure\<close> stands for whatever
  \<^verbatim>\<open>Connection::configureRequest\<close> throws (it is caught with \<^verbatim>\<open>catch (...)\<close>);
  \<open>Transfer_error\<close> carries the terminal \<^verbatim>\<open>CURLcode\<close> of a failed transfer;
  \<open>Null_connection\<close> marks the dereference of a null \<^verbatim>\<open>Connection*\<close>.
\<close>

datatype exn =
    Thrown_by_configure string
  | Runtime_error message
  | Future_error future_errc
  | Transfer_error int
  | Null_connection

section \<open>Promise, Connection, pending handlers\<close>

text \<open>
  The shared state of a promise/future pair as the C++ library defines it: it is
  satisfied at most once (a second \<^verbatim>\<open>set_exception\<close> throws
  \<^verbatim>\<open>promise_already_satisfied\<close>), and its future is taken at most once.
\<close>

datatype outcome = Has_value string | Has_exception exn

record promise =
  satisfied :: "outcome option"
  retrieved :: bool

record request =
  r_connection :: "conn option"
  payload :: string

record connection =
  c_socket :: socket
  c_handle :: easy
  c_request :: "request option"
  c_promise :: promise

text \<open>
  A completion handler handed to boost::asio: either \<^verbatim>\<open>strand.wrap(...)\<close>'ed, so that
  it runs under the strand, or handed over as it is.
\<close>

datatype executor = Through_strand | Unwrapped

datatype handler = Bound_timer_cb | Bound_performOp conn int

datatype io_kind = Async_read_some | Async_write_some

record io_op =
  io_what :: io_kind
  io_conn :: conn
  io_exec :: executor
  io_handler :: handler

record timer_wait =
  tw_exec :: executor
  tw_handler :: handler

section \<open>The state of the reactor and of its collaborators\<close>

record manager =
  registered :: "easy list"
  msgs :: "curl_msg list"
  easy_private :: "easy \<Rightarrow> int \<times> conn option"
  indeterminate :: "easy \<Rightarrow> conn option"
  remove_rc :: "easy \<Rightarrow> int"
  assigned :: "socket \<Rightarrow> conn option"
  timer_expiry :: "int option"
  timer_waits :: "timer_wait list"
  cancelled_waits :: "timer_wait list"
  expired_waits :: "timer_wait list"
  armed :: "io_op list"
  strand_posted :: "(http_method \<times> conn) list"
  pool_posted :: "(int \<times> conn option) list"
  conns :: "conn \<Rightarrow> connection"
  logged :: "message list"

text \<open>A thrown exception leaves the state as it was at the throw.\<close>

type_synonym 'a result = "(exn \<times> manager) + 'a"

text \<open>
  What the engine answers to one \<^verbatim>\<open>curl_multi_socket_action\<close>: the return code, the
  number of transfers still running, and the transfers that finished during the call.
\<close>

record engine_reply =
  rc :: int
  still_running :: int
  finished :: "curl_msg list"

section \<open>Library operations\<close>

definition log_error :: "message \<Rightarrow> manager \<Rightarrow> manager" where
  "log_error m st = st\<lparr>logged := logged st @ [m]\<rparr>"

text \<open>
  \<^verbatim>\<open>deadline_timer::cancel\<close>: every pending wait completes with
  \<^verbatim>\<open>operation_aborted\<close>; none stays pending.
\<close>

definition timer_cancel :: "manager \<Rightarrow> manager" where
  "timer_cancel st =
     st\<lparr>cancelled_waits := cancelled_waits st @ timer_waits st, timer_waits := []\<rparr>"

definition timer_expires_from_now :: "int \<Rightarrow> manager \<Rightarrow> manager" where
  "timer_expires_from_now ms st = (timer_cancel st)\<lparr>timer_expiry := Some ms\<rparr>"

definition timer_async_wait :: "executor \<Rightarrow> handler \<Rightarrow> manager \<Rightarrow> manager" where
  "timer_async_wait ex h st =
     st\<lparr>timer_waits := timer_waits st @ [\<lparr>tw_exec = ex, tw_handler = h\<rparr>]\<rparr>"

definition socket_async :: "io_kind \<Rightarrow> conn \<Rightarrow> executor \<Rightarrow> handler \<Rightarrow> manager \<Rightarrow> manager" where
  "socket_async k c ex h st =
     st\<lparr>armed := armed st @ [\<lparr>io_what = k, io_conn = c, io_exec = ex, io_handler = h\<rparr>]\<rparr>"

definition pool_post :: "int \<Rightarrow> conn option \<Rightarrow> manager \<Rightarrow> manager" where
  "pool_post result c st = st\<lparr>pool_posted := pool_posted st @ [(result, c)]\<rparr>"

definition strand_post :: "http_method \<Rightarrow> conn \<Rightarrow> manager \<Rightarrow> manager" where
  "strand_post m c st = st\<lparr>strand_posted := strand_posted st @ [(m, c)]\<rparr>"

definition curl_multi_socket_action :: "socket option \<Rightarrow> int \<Rightarrow> engine_reply \<Rightarrow> manager \<Rightarrow> manager" where
  "curl_multi_socket_action s ev_bitmask reply st = st\<lparr>msgs := msgs st @ finished reply\<rparr>"

definition curl_multi_info_read :: "manager \<Rightarrow> (curl_msg \<times> manager) option" where
  "curl_multi_info_read st =
     (case msgs st of [] \<Rightarrow> None | m # ms \<Rightarrow> Some (m, st\<lparr>msgs := ms\<rparr>))"

definition curl_multi_remove_handle :: "easy \<Rightarrow> manager \<Rightarrow> int \<times> manager" where
  "curl_multi_remove_handle e st =
     (if remove_rc st e = CURLM_OK
      then (CURLM_OK, st\<lparr>registered := removeAll e (registered st)\<rparr>)
      else (remove_rc st e, st))"

definition curl_multi_add_handle :: "int \<Rightarrow> easy \<Rightarrow> manager \<Rightarrow> int \<times> manager" where
  "curl_multi_add_handle add_rc e st =
     (if add_rc = CURLM_OK
      then (CURLM_OK, st\<lparr>registered := registered st @ [e]\<rparr>)
      else (add_rc, st))"

definition curl_multi_assign :: "socket \<Rightarrow> conn option \<Rightarrow> manager \<Rightarrow> manager" where
  "curl_multi_assign s v st = st\<lparr>assigned := (assigned st)(s := v)\<rparr>"

definition set_exception :: "conn \<Rightarrow> exn \<Rightarrow> manager \<Rightarrow> manager result" where
  "set_exception c e st =
     (case satisfied (c_promise (conns st c)) of
        Some _ \<Rightarrow> Inl (Future_error Promise_already_satisfied, st)
      | None \<Rightarrow>
          Inr (st\<lparr>conns := (conns st)
                 (c := (conns st c)\<lparr>c_promise :=
                    (c_promise (conns st c))\<lparr>satisfied := Some (Has_exception e)\<rparr>\<rparr>)\<rparr>))"

definition set_value :: "conn \<Rightarrow> string \<Rightarrow> manager \<Rightarrow> manager result" where
  "set_value c v st =
     (case satisfied (c_promise (conns st c)) of
        Some _ \<Rightarrow> Inl (Future_error Promise_already_satisfied, st)
      | None \<Rightarrow>
          Inr (st\<lparr>conns := (conns st)
                 (c := (conns st c)\<lparr>c_promise :=
                    (c_promise (conns st c))\<lparr>satisfied := Some (Has_value v)\<rparr>\<rparr>)\<rparr>))"

section \<open>The reactor: \<^verbatim>\<open>HttpClient::Manager\<close>\<close>

text \<open>
  \<^verbatim>\<open>checkHandles\<close>: the loop pops one message per iteration until
  \<^verbatim>\<open>curl_multi_info_read\<close> returns null. The local \<^verbatim>\<open>Connection* conn\<close> is not
  initialised and the return code of \<^verbatim>\<open>curl_easy_getinfo\<close> is dropped: when the lookup
  fails nothing is written to \<^verbatim>\<open>conn\<close> and the code goes on with whatever its storage
  holds, an input of the model (\<open>indeterminate\<close>).
\<close>

definition getinfo_private_unchecked :: "easy \<Rightarrow> manager \<Rightarrow> conn option" where
  "getinfo_private_unchecked easy st =
     (let (rc, v) = easy_private st easy in
      if rc = CURLE_OK then v else indeterminate st easy)"

definition handle_msg :: "curl_msg \<Rightarrow> manager \<Rightarrow> manager" where
  "handle_msg msg st =
     (if msg_kind msg = CURLMSG_DONE then
        let easy = easy_handle msg;
            result = data_result msg;
            c = getinfo_private_unchecked easy st;
            (rc, st1) = curl_multi_remove_handle easy st;
            st2 = (if rc \<noteq> CURLM_OK
                   then log_error (Text ''Cannot unregister easy handle'') st1 else st1)
        in pool_post result c st2
      else st)"

function checkHandles :: "manager \<Rightarrow> manager" where
  "checkHandles st =
     (case curl_multi_info_read st of
        None \<Rightarrow> st
      | Some (msg, st1) \<Rightarrow> checkHandles (handle_msg msg st1))"
  by pat_completeness auto

termination checkHandles
  by (relation "measure (\<lambda>st. length (msgs st))")
    (auto simp: curl_multi_info_read_def handle_msg_def curl_multi_remove_handle_def
      log_error_def pool_post_def Let_def split: list.splits prod.splits)

declare checkHandles.simps [simp del]

text \<open>\<^verbatim>\<open>timer_cb\<close>: \<open>error\<close> is true when the wait was aborted.\<close>

definition timer_cb :: "bool \<Rightarrow> engine_reply \<Rightarrow> manager \<Rightarrow> manager result" where
  "timer_cb error reply st =
     (if \<not> error then
        let st1 = curl_multi_socket_action None 0 reply st in
        if rc reply \<noteq> CURLM_OK
        then Inl (Runtime_error (Text ''timer_cb error''),
                  log_error (Text_multi_strerror ''Error curl multi: '' (rc reply)) st1)
        else Inr (checkHandles st1)
      else Inr st)"

text \<open>
  \<^verbatim>\<open>curl_timer_cb\<close>: \<open>reply\<close> is the engine's answer to the step that the zero-delay
  branch makes.
\<close>

definition curl_timer_cb :: "int \<Rightarrow> engine_reply \<Rightarrow> manager \<Rightarrow> manager result" where
  "curl_timer_cb timeout_ms reply st =
     (let st1 = timer_cancel st in
      if timeout_ms > 0
      then Inr (timer_async_wait Unwrapped Bound_timer_cb
                  (timer_expires_from_now timeout_ms st1))
      else timer_cb False reply st1)"

definition poll :: "conn \<Rightarrow> int \<Rightarrow> manager \<Rightarrow> manager" where
  "poll connection action st =
     (if action = CURL_POLL_IN then
        socket_async Async_read_some connection Through_strand
          (Bound_performOp connection action) st
      else if action = CURL_POLL_OUT then
        socket_async Async_write_some connection Through_strand
          (Bound_performOp connection action) st
      else if action = CURL_POLL_INOUT then
        socket_async Async_write_some connection Through_strand
          (Bound_performOp connection action)
          (socket_async Async_read_some connection Through_strand
             (Bound_performOp connection action) st)
      else st)"

definition sock_cb :: "easy \<Rightarrow> socket \<Rightarrow> int \<Rightarrow> conn option \<Rightarrow> manager \<Rightarrow> manager result" where
  "sock_cb easy s what socket_private st =
     (if what = CURL_POLL_REMOVE then Inr st
      else
        (case socket_private of
           None \<Rightarrow>
             let (rc, v) = easy_private st easy in
             if rc \<noteq> CURLE_OK
             then Inl (Runtime_error (Text_easy_strerror ''Cannot get private info:'' rc), st)
             else
               let st1 = curl_multi_assign s v st in
               (case v of
                  None \<Rightarrow> Inl (Null_connection, st1)
                | Some connection \<Rightarrow> Inr (poll connection what st1))
         | Some connection \<Rightarrow> Inr (poll connection what st)))"

definition performOp :: "conn \<Rightarrow> int \<Rightarrow> engine_reply \<Rightarrow> manager \<Rightarrow> manager result" where
  "performOp connection action reply st =
     (let st1 = curl_multi_socket_action (Some (c_socket (conns st connection))) action reply st in
      if rc reply \<noteq> CURLM_OK
      then Inl (Runtime_error (Multi_strerror (rc reply)), st1)
      else
        let st2 = checkHandles st1 in
        Inr (if still_running reply \<le> 0 then timer_cancel st2 else st2))"

text \<open>
  \<^verbatim>\<open>Manager::handleRequest\<close> posts a task to the strand. The task is
  \<open>submission\<close>: \<open>cfg\<close> is what \<^verbatim>\<open>configureRequest\<close> throws, if anything, and \<open>add_rc\<close>
  what \<^verbatim>\<open>curl_multi_add_handle\<close> returns. \<open>submission_configure\<close> is its
  \<^verbatim>\<open>try\<close>/\<^verbatim>\<open>catch\<close> block and \<open>submission_register\<close> the statements after it.
  The options that \<^verbatim>\<open>configureRequest\<close> sets on the transfer are the engine's business
  and leave no trace in the state.
\<close>

definition submission_configure :: "http_method \<Rightarrow> conn \<Rightarrow> exn option \<Rightarrow> manager \<Rightarrow> manager result" where
  "submission_configure m c cfg st =
     (case cfg of
        None \<Rightarrow> Inr st
      | Some e \<Rightarrow> set_exception c e st)"

definition submission_register :: "conn \<Rightarrow> int \<Rightarrow> manager \<Rightarrow> manager result" where
  "submission_register c add_rc st =
     (let (rc, st1) = curl_multi_add_handle add_rc (c_handle (conns st c)) st in
      if rc \<noteq> CURLM_OK
      then set_exception c (Runtime_error (Multi_strerror rc))
             (log_error (Text_multi_strerror ''Error scheduling a new request: '' rc) st1)
      else Inr st1)"

definition submission :: "http_method \<Rightarrow> conn \<Rightarrow> exn option \<Rightarrow> int \<Rightarrow> manager \<Rightarrow> manager result" where
  "submission m c cfg add_rc st =
     (case submission_configure m c cfg st of
        Inl err \<Rightarrow> Inl err
      | Inr st1 \<Rightarrow> submission_register c add_rc st1)"

definition Manager_handleRequest :: "http_method \<Rightarrow> conn \<Rightarrow> manager \<Rightarrow> manager" where
  "Manager_handleRequest m c st = strand_post m c st"

section \<open>The finalize task\<close>

text \<open>
  Modelled from the spec: \<^verbatim>\<open>Connection::buildResponse\<close> is called by the task that
  \<^verbatim>\<open>checkHandles\<close> posts and is defined in sources that are not at hand. The spec has it
  convert the engine's terminal status into a response or an error and fulfil the
  Connection's completion promise. \<open>response\<close> is the response assembled for a transfer
  that succeeded.
\<close>

definition buildResponse :: "string \<Rightarrow> int \<Rightarrow> conn \<Rightarrow> manager \<Rightarrow> manager result" where
  "buildResponse response terminalResult c st =
     (if terminalResult = CURLE_OK then set_value c response st
      else set_exception c (Transfer_error terminalResult) st)"

text \<open>The posted closure \<^verbatim>\<open>[result, conn] { conn->buildResponse(result); }\<close>.\<close>

definition finalize :: "string \<Rightarrow> int \<times> conn option \<Rightarrow> manager \<Rightarrow> manager result" where
  "finalize response task st =
     (case snd task of
        None \<Rightarrow> Inl (Null_connection, st)
      | Some c \<Rightarrow> buildResponse response (fst task) c st)"

section \<open>The facade: \<^verbatim>\<open>HttpClient\<close>\<close>

text \<open>
  Modelled from the spec: \<^verbatim>\<open>ThreadPool::start\<close> is declared in
  \<^verbatim>\<open>ThreadPool.hpp\<close> and defined elsewhere; the spec has it spawn the worker threads,
  which the model records in \<open>p_running\<close> (the member \<^verbatim>\<open>running_\<close>).
\<close>

record thread_pool =
  p_nb_thread :: nat
  p_running :: bool

definition ThreadPool_start :: "thread_pool \<Rightarrow> thread_pool" where
  "ThreadPool_start p = p\<lparr>p_running := True\<rparr>"

record client =
  c_pool :: thread_pool
  mgr :: manager

datatype future = Future conn

definition get_future :: "conn \<Rightarrow> manager \<Rightarrow> (future \<times> manager) result" where
  "get_future c st =
     (if retrieved (c_promise (conns st c))
      then Inl (Future_error Future_already_retrieved, st)
      else Inr (Future c,
             st\<lparr>conns := (conns st)
               (c := (conns st c)\<lparr>c_promise := (c_promise (conns st c))\<lparr>retrieved := True\<rparr>\<rparr>)\<rparr>))"

text \<open>
  \<^verbatim>\<open>HttpClient::handleRequest\<close>. \<^verbatim>\<open>Connection::createConnection\<close> and
  \<^verbatim>\<open>Connection::init\<close> are not part of the sources at hand: \<open>fresh\<close> is the
  Connection the former returns and \<open>init\<close> what the latter does to a Connection.
\<close>

definition HttpClient_handleRequest ::
  "(connection \<Rightarrow> connection) \<Rightarrow> conn \<Rightarrow> http_method \<Rightarrow> request \<Rightarrow> client \<Rightarrow> (future \<times> client) result" where
  "HttpClient_handleRequest init fresh m req cl =
     (let connection = (case r_connection req of Some c \<Rightarrow> c | None \<Rightarrow> fresh);
          st = mgr cl;
          st1 = st\<lparr>conns := (conns st)(connection := init (conns st connection))\<rparr>;
          st2 = st1\<lparr>conns := (conns st1)
                  (connection := (conns st1 connection)
                     \<lparr>c_request := Some (req\<lparr>r_connection := None\<rparr>)\<rparr>)\<rparr>
      in case get_future connection st2 of
           Inl err \<Rightarrow> Inl err
         | Inr (fut, st3) \<Rightarrow>
             Inr (fut, cl\<lparr>mgr := Manager_handleRequest m connection st3\<rparr>))"

subsection \<open>Construction and the process-wide bootstrap\<close>

datatype multi_option =
  CURLMOPT_SOCKETFUNCTION | CURLMOPT_SOCKETDATA | CURLMOPT_TIMERFUNCTION | CURLMOPT_TIMERDATA

text \<open>The calls a construction makes, in the order it makes them.\<close>

datatype lib_call =
    ThreadPool_ctor nat
  | Curl_multi_init
  | Curl_multi_setopt multi_option
  | Curl_global_init int
  | ThreadPool_started

text \<open>
  The process: the \<^verbatim>\<open>std::once_flag\<close> (set by the first call that returns without
  throwing), the calls made so far and the log.
\<close>

record process =
  curl_init_flag :: bool
  calls :: "lib_call list"
  plog :: "message list"

text \<open>What the libraries answer during one construction.\<close>

record ctor_env =
  multi_init_ok :: bool
  setopt_rc :: "multi_option \<Rightarrow> int"
  global_init_rc :: int
  env_easy_private :: "easy \<Rightarrow> int \<times> conn option"
  env_indeterminate :: "easy \<Rightarrow> conn option"
  env_remove_rc :: "easy \<Rightarrow> int"
  env_conns :: "conn \<Rightarrow> connection"

type_synonym 'a presult = "(exn \<times> process) + 'a"

definition called :: "lib_call \<Rightarrow> process \<Rightarrow> process" where
  "called c ps = ps\<lparr>calls := calls ps @ [c]\<rparr>"

definition init_curl :: "ctor_env \<Rightarrow> process \<Rightarrow> process presult" where
  "init_curl env ps =
     (let ps1 = called (Curl_global_init (global_init_rc env)) ps in
      if global_init_rc env \<noteq> 0
      then Inl (Runtime_error (Text ''Cannot initialize curl''), ps1)
      else Inr ps1)"

definition call_once_init_curl :: "ctor_env \<Rightarrow> process \<Rightarrow> process presult" where
  "call_once_init_curl env ps =
     (if curl_init_flag ps then Inr ps
      else
        (case init_curl env ps of
           Inl err \<Rightarrow> Inl err
         | Inr ps1 \<Rightarrow> Inr (ps1\<lparr>curl_init_flag := True\<rparr>)))"

definition manager_setopt :: "ctor_env \<Rightarrow> multi_option \<Rightarrow> process \<Rightarrow> process presult" where
  "manager_setopt env opt ps =
     (let ps1 = called (Curl_multi_setopt opt) ps in
      if setopt_rc env opt \<noteq> CURLM_OK
      then Inl (Runtime_error (Text ''Cannot set option on curl''),
                ps1\<lparr>plog := plog ps1 @
                  [Text_multi_strerror ''Error setting curl option: '' (setopt_rc env opt)]\<rparr>)
      else Inr ps1)"

fun manager_setopts :: "ctor_env \<Rightarrow> multi_option list \<Rightarrow> process \<Rightarrow> process presult" where
  "manager_setopts env [] ps = Inr ps"
| "manager_setopts env (opt # opts) ps =
     (case manager_setopt env opt ps of
        Inl err \<Rightarrow> Inl err
      | Inr ps1 \<Rightarrow> manager_setopts env opts ps1)"

definition Manager_ctor :: "ctor_env \<Rightarrow> process \<Rightarrow> (manager \<times> process) presult" where
  "Manager_ctor env ps =
     (let ps1 = called Curl_multi_init ps in
      if \<not> multi_init_ok env
      then Inl (Runtime_error (Text ''Cannot initialize curl multi handle''), ps1)
      else
        (case manager_setopts env
                [CURLMOPT_SOCKETFUNCTION, CURLMOPT_SOCKETDATA,
                 CURLMOPT_TIMERFUNCTION, CURLMOPT_TIMERDATA] ps1 of
           Inl err \<Rightarrow> Inl err
         | Inr ps2 \<Rightarrow>
             Inr (\<lparr>registered = [], msgs = [], easy_private = env_easy_private env,
                   indeterminate = env_indeterminate env,
                   remove_rc = env_remove_rc env, assigned = (\<lambda>s. None),
                   timer_expiry = None, timer_waits = [], cancelled_waits = [],
                   expired_waits = [], armed = [], strand_posted = [], pool_posted = [],
                   conns = env_conns env, logged = []\<rparr>, ps2)))"

definition HttpClient_ctor :: "nat \<Rightarrow> ctor_env \<Rightarrow> process \<Rightarrow> (client \<times> process) presult" where
  "HttpClient_ctor nb_thread env ps =
     (let ps1 = called (ThreadPool_ctor nb_thread) ps;
          pool = \<lparr>p_nb_thread = nb_thread, p_running = False\<rparr>
      in case Manager_ctor env ps1 of
           Inl err \<Rightarrow> Inl err
         | Inr (manager, ps2) \<Rightarrow>
             (case call_once_init_curl env ps2 of
                Inl err \<Rightarrow> Inl err
              | Inr ps3 \<Rightarrow>
                  Inr (\<lparr>c_pool = ThreadPool_start pool, mgr = manager\<rparr>,
                       called ThreadPool_started ps3)))"

text \<open>
  Any number of constructions in one process, one after the other; a construction that
  throws leaves the process as it was at the throw.
\<close>

definition process_after :: "(client \<times> process) presult \<Rightarrow> process" where
  "process_after r = (case r of Inl (e, ps) \<Rightarrow> ps | Inr (cl, ps) \<Rightarrow> ps)"

fun construct_all :: "nat \<Rightarrow> ctor_env list \<Rightarrow> process \<Rightarrow> process" where
  "construct_all nb_thread [] ps = ps"
| "construct_all nb_thread (env # envs) ps =
     construct_all nb_thread envs (process_after (HttpClient_ctor nb_thread env ps))"

definition fresh_process :: process where
  "fresh_process = \<lparr>curl_init_flag = False, calls = [], plog = []\<rparr>"

section \<open>The event loop\<close>

text \<open>
  What the I/O service, the engine and the callers make happen to a reactor, one event at
  a time. When the tick timer expires, its pending waits complete without error and
  their handlers are queued; a queued handler runs later, and so does the handler of a
  cancelled wait, with \<^verbatim>\<open>operation_aborted\<close>. A worker runs the oldest task posted to
  the pool. An event that is not enabled (no posted
  submission, no queued handler, no such socket operation) leaves the state as it is.

  What a worker thread does with an exception that escapes a handler is decided in
  \<^verbatim>\<open>ThreadPool.cpp\<close>, which is not among the sources at hand. \<open>run\<close> records the
  exception and goes on from the state the throw left; the states of a pool that stops
  at the first exception are those of the prefixes of a run.
\<close>

datatype event =
    Submit http_method conn
  | Run_submission "exn option" int
  | Socket_interest easy socket int "conn option"
  | Timeout_hint int engine_reply
  | Timer_expires
  | Run_expired engine_reply
  | Run_aborted
  | Io_ready nat engine_reply
  | Run_finalize string

definition invoke :: "handler \<Rightarrow> bool \<Rightarrow> engine_reply \<Rightarrow> manager \<Rightarrow> manager result" where
  "invoke h error reply st =
     (case h of
        Bound_timer_cb \<Rightarrow> timer_cb error reply st
      | Bound_performOp c action \<Rightarrow> performOp c action reply st)"

definition no_reply :: engine_reply where
  "no_reply = \<lparr>rc = CURLM_OK, still_running = 0, finished = []\<rparr>"

fun fire :: "event \<Rightarrow> manager \<Rightarrow> manager result" where
  "fire (Submit m c) st = Inr (Manager_handleRequest m c st)"
| "fire (Run_submission cfg add_rc) st =
     (case strand_posted st of
        [] \<Rightarrow> Inr st
      | (m, c) # rest \<Rightarrow> submission m c cfg add_rc (st\<lparr>strand_posted := rest\<rparr>))"
| "fire (Socket_interest e s what p) st = sock_cb e s what p st"
| "fire (Timeout_hint ms reply) st = curl_timer_cb ms reply st"
| "fire Timer_expires st =
     Inr (st\<lparr>expired_waits := expired_waits st @ timer_waits st, timer_waits := []\<rparr>)"
| "fire (Run_expired reply) st =
     (case expired_waits st of
        [] \<Rightarrow> Inr st
      | w # ws \<Rightarrow> invoke (tw_handler w) False reply (st\<lparr>expired_waits := ws\<rparr>))"
| "fire Run_aborted st =
     (case cancelled_waits st of
        [] \<Rightarrow> Inr st
      | w # ws \<Rightarrow> invoke (tw_handler w) True no_reply (st\<lparr>cancelled_waits := ws\<rparr>))"
| "fire (Io_ready i reply) st =
     (if i < length (armed st)
      then invoke (io_handler (armed st ! i)) False reply
             (st\<lparr>armed := take i (armed st) @ drop (Suc i) (armed st)\<rparr>)
      else Inr st)"
| "fire (Run_finalize response) st =
     (case pool_posted st of
        [] \<Rightarrow> Inr st
      | task # rest \<Rightarrow> finalize response task (st\<lparr>pool_posted := rest\<rparr>))"

definition final :: "manager result \<Rightarrow> manager" where
  "final r = (case r of Inl (e, st) \<Rightarrow> st | Inr st \<Rightarrow> st)"

definition thrown :: "manager result \<Rightarrow> exn list" where
  "thrown r = (case r of Inl (e, st) \<Rightarrow> [e] | Inr st \<Rightarrow> [])"

fun run :: "event list \<Rightarrow> manager \<Rightarrow> exn list \<times> manager" where
  "run [] st = ([], st)"
| "run (ev # evs) st =
     (let r = fire ev st; (es, st1) = run evs (final r) in (thrown r @ es, st1))"

section \<open>Notions used in the statements\<close>

text \<open>The transfers among the queued messages that the engine reports finished.\<close>

definition done_msgs :: "curl_msg list \<Rightarrow> curl_msg list" where
  "done_msgs ms = filter (\<lambda>m. msg_kind m = CURLMSG_DONE) ms"

text \<open>
  A socket operation whose completion runs \<^verbatim>\<open>performOp\<close> for Connection \<open>c\<close> and
  interest \<open>what\<close> under the strand, and the operations that go with an interest.
\<close>

definition arming :: "conn \<Rightarrow> int \<Rightarrow> io_kind \<Rightarrow> io_op" where
  "arming c what k =
     \<lparr>io_what = k, io_conn = c, io_exec = Through_strand, io_handler = Bound_performOp c what\<rparr>"

definition matching_ops :: "int \<Rightarrow> io_kind list" where
  "matching_ops what =
     (if what = CURL_POLL_IN then [Async_read_some]
      else if what = CURL_POLL_OUT then [Async_write_some]
      else if what = CURL_POLL_INOUT then [Async_read_some, Async_write_some]
      else [])"


text \<open>The Connection a request is served with: the one it carries, else a new one.\<close>

definition chosen_connection :: "conn \<Rightarrow> request \<Rightarrow> conn" where
  "chosen_connection fresh req = (case r_connection req of Some c \<Rightarrow> c | None \<Rightarrow> fresh)"

text \<open>
  The calls of \<^verbatim>\<open>curl_global_init\<close> a process has made, and the answers under which the
  reactor's constructor does not throw.
\<close>

fun is_bootstrap :: "lib_call \<Rightarrow> bool" where
  "is_bootstrap (Curl_global_init r) = True"
| "is_bootstrap c = False"

definition bootstraps :: "process \<Rightarrow> lib_call list" where
  "bootstraps ps = filter is_bootstrap (calls ps)"

definition reactor_ok :: "ctor_env \<Rightarrow> bool" where
  "reactor_ok env \<longleftrightarrow>
     multi_init_ok env
     \<and> setopt_rc env CURLMOPT_SOCKETFUNCTION = CURLM_OK
     \<and> setopt_rc env CURLMOPT_SOCKETDATA = CURLM_OK
     \<and> setopt_rc env CURLMOPT_TIMERFUNCTION = CURLM_OK
     \<and> setopt_rc env CURLMOPT_TIMERDATA = CURLM_OK"

section \<open>Concrete states and answers\<close>

text \<open>
  A reactor at rest: Connection \<open>c\<close> has socket \<open>10 + c\<close> and easy handle \<open>100 + c\<close>,
  whose private slot points back to it; no promise is satisfied.
\<close>

definition unset_promise :: promise where
  "unset_promise = \<lparr>satisfied = None, retrieved = False\<rparr>"

definition sample_connection :: "conn \<Rightarrow> connection" where
  "sample_connection c =
     \<lparr>c_socket = 10 + c, c_handle = 100 + c, c_request = None, c_promise = unset_promise\<rparr>"

definition sample_manager :: manager where
  "sample_manager =
     \<lparr>registered = [], msgs = [],
      easy_private = (\<lambda>e. (CURLE_OK, if 100 \<le> e then Some (e - 100) else None)),
      indeterminate = (\<lambda>e. Some 1),
      remove_rc = (\<lambda>e. CURLM_OK), assigned = (\<lambda>s. None),
      timer_expiry = None, timer_waits = [], cancelled_waits = [], expired_waits = [],
      armed = [], strand_posted = [], pool_posted = [],
      conns = sample_connection, logged = []\<rparr>"

text \<open>The wait that a positive timeout hint arms.\<close>

definition tick_wait :: timer_wait where
  "tick_wait = \<lparr>tw_exec = Unwrapped, tw_handler = Bound_timer_cb\<rparr>"

text \<open>
  Engine answers: the transfer of Connection 1 has finished and nothing is left running;
  the step failed with code 1. A queued message for the transfer of Connection 2, failed
  with code 7, and a reactor with the transfers of Connections 1 and 2 both finished.
\<close>

definition done_reply :: engine_reply where
  "done_reply =
     \<lparr>rc = CURLM_OK, still_running = 0,
      finished = [\<lparr>msg_kind = CURLMSG_DONE, easy_handle = 101, data_result = 0\<rparr>]\<rparr>"

definition queued_failure :: curl_msg where
  "queued_failure = \<lparr>msg_kind = CURLMSG_DONE, easy_handle = 102, data_result = 7\<rparr>"

definition two_finished :: manager where
  "two_finished =
     sample_manager\<lparr>registered := [101, 102],
       msgs := [\<lparr>msg_kind = CURLMSG_DONE, easy_handle = 101, data_result = 0\<rparr>, queued_failure]\<rparr>"


definition bad_url :: exn where
  "bad_url = Thrown_by_configure ''bad url''"


text \<open>A reactor whose engine fails every lookup of a transfer's private slot.\<close>

definition lookup_fails :: manager where
  "lookup_fails = sample_manager\<lparr>easy_private := (\<lambda>e. (43, None))\<rparr>"

text \<open>Library answers during a construction: all calls succeed; the bootstrap fails.\<close>

definition sample_env :: ctor_env where
  "sample_env =
     \<lparr>multi_init_ok = True, setopt_rc = (\<lambda>opt. CURLM_OK), global_init_rc = 0,
      env_easy_private = easy_private sample_manager,
      env_indeterminate = indeterminate sample_manager, env_remove_rc = remove_rc sample_manager,
      env_conns = sample_connection\<rparr>"

definition failing_env :: ctor_env where
  "failing_env = sample_env\<lparr>global_init_rc := 2\<rparr>"

text \<open>A client, an \<^verbatim>\<open>init\<close> that installs a new promise, and two requests.\<close>

definition reset_promise :: "connection \<Rightarrow> connection" where
  "reset_promise c = c\<lparr>c_promise := unset_promise\<rparr>"

definition sample_client :: client where
  "sample_client = \<lparr>c_pool = \<lparr>p_nb_thread = 4, p_running = True\<rparr>, mgr = sample_manager\<rparr>"

definition carried_request :: request where
  "carried_request = \<lparr>r_connection = Some 3, payload = ''/index''\<rparr>"

definition plain_request :: request where
  "plain_request = \<lparr>r_connection = None, payload = ''/index''\<rparr>"

section \<open>Completion draining\<close>

lemma getinfo_msgs_update:
  "getinfo_private_unchecked e (st\<lparr>msgs := x\<rparr>) = getinfo_private_unchecked e st"
  by (simp add: getinfo_private_unchecked_def case_prod_beta)

lemma handle_msg_msgs_update:
  "handle_msg m (st\<lparr>msgs := x\<rparr>) = (handle_msg m st)\<lparr>msgs := x\<rparr>"
  by (simp add: handle_msg_def curl_multi_remove_handle_def log_error_def pool_post_def Let_def
      getinfo_msgs_update)

lemma handle_msg_unchanged:
  "msgs (handle_msg m st) = msgs st"
  "timer_waits (handle_msg m st) = timer_waits st"
  "conns (handle_msg m st) = conns st"
  "easy_private (handle_msg m st) = easy_private st"
  "remove_rc (handle_msg m st) = remove_rc st"
  "indeterminate (handle_msg m st) = indeterminate st"
  by (simp_all add: handle_msg_def curl_multi_remove_handle_def log_error_def pool_post_def Let_def)

lemma getinfo_handle_msg:
  "getinfo_private_unchecked e (handle_msg m st) = getinfo_private_unchecked e st"
  by (simp add: getinfo_private_unchecked_def handle_msg_unchanged case_prod_beta)

lemma handle_msg_changed:
  "pool_posted (handle_msg m st) = pool_posted st @
     (if msg_kind m = CURLMSG_DONE
      then [(data_result m, getinfo_private_unchecked (easy_handle m) st)] else [])"
  "logged (handle_msg m st) = logged st @
     (if msg_kind m = CURLMSG_DONE \<and> remove_rc st (easy_handle m) \<noteq> CURLM_OK
      then [Text ''Cannot unregister easy handle''] else [])"
  "registered (handle_msg m st) =
     (if msg_kind m = CURLMSG_DONE \<and> remove_rc st (easy_handle m) = CURLM_OK
      then removeAll (easy_handle m) (registered st) else registered st)"
  by (simp_all add: handle_msg_def curl_multi_remove_handle_def log_error_def pool_post_def Let_def)

text \<open>The loop of \<^verbatim>\<open>checkHandles\<close> handles the queued messages one after the other.\<close>

lemma checkHandles_fold:
  "checkHandles st = fold handle_msg (msgs st) (st\<lparr>msgs := []\<rparr>)"
proof (induction st rule: checkHandles.induct)
  case (1 st)
  show ?case
  proof (cases "msgs st")
    case Nil
    then show ?thesis
      by (subst checkHandles.simps) (simp add: curl_multi_info_read_def)
  next
    case (Cons m ms)
    then have "checkHandles st = checkHandles (handle_msg m (st\<lparr>msgs := ms\<rparr>))"
      by (subst checkHandles.simps) (simp add: curl_multi_info_read_def)
    also have "\<dots> = fold handle_msg (msgs (handle_msg m (st\<lparr>msgs := ms\<rparr>)))
                       ((handle_msg m (st\<lparr>msgs := ms\<rparr>))\<lparr>msgs := []\<rparr>)"
      using Cons by (intro "1.IH") (simp_all add: curl_multi_info_read_def)
    also have "\<dots> = fold handle_msg (msgs st) (st\<lparr>msgs := []\<rparr>)"
      using Cons by (simp add: handle_msg_unchanged handle_msg_msgs_update)
    finally show ?thesis .
  qed
qed

lemma fold_handle_msg_unchanged:
  "msgs (fold handle_msg ms st) = msgs st"
  "timer_waits (fold handle_msg ms st) = timer_waits st"
  "conns (fold handle_msg ms st) = conns st"
  "easy_private (fold handle_msg ms st) = easy_private st"
  "remove_rc (fold handle_msg ms st) = remove_rc st"
  "indeterminate (fold handle_msg ms st) = indeterminate st"
  by (induction ms arbitrary: st; simp add: handle_msg_unchanged)+

lemma done_msgs_append: "done_msgs (xs @ ys) = done_msgs xs @ done_msgs ys"
  by (simp add: done_msgs_def)

lemma fold_handle_msg_pool:
  "pool_posted (fold handle_msg ms st) = pool_posted st @
     map (\<lambda>m. (data_result m, getinfo_private_unchecked (easy_handle m) st)) (done_msgs ms)"
  by (induction ms arbitrary: st)
    (simp_all add: handle_msg_changed handle_msg_unchanged getinfo_handle_msg done_msgs_def)

lemma fold_handle_msg_logged:
  "logged (fold handle_msg ms st) = logged st @
     map (\<lambda>m. Text ''Cannot unregister easy handle'')
       (filter (\<lambda>m. remove_rc st (easy_handle m) \<noteq> CURLM_OK) (done_msgs ms))"
  by (induction ms arbitrary: st) (simp_all add: handle_msg_changed handle_msg_unchanged done_msgs_def)

lemma fold_handle_msg_registered:
  "registered (fold handle_msg ms st) =
     filter (\<lambda>e. e \<notin> set (map easy_handle
                (filter (\<lambda>m. remove_rc st (easy_handle m) = CURLM_OK) (done_msgs ms))))
       (registered st)"
proof (induction ms arbitrary: st)
  case Nil
  show ?case by (simp add: done_msgs_def)
next
  case (Cons m ms)
  have "registered (fold handle_msg (m # ms) st) =
          filter (\<lambda>e. e \<notin> set (map easy_handle
                (filter (\<lambda>m. remove_rc st (easy_handle m) = CURLM_OK) (done_msgs ms))))
            (registered (handle_msg m st))"
    by (simp add: Cons.IH handle_msg_unchanged)
  also have "\<dots> = filter (\<lambda>e. e \<notin> set (map easy_handle
                (filter (\<lambda>m. remove_rc st (easy_handle m) = CURLM_OK) (done_msgs (m # ms)))))
            (registered st)"
    by (auto simp: handle_msg_changed done_msgs_def removeAll_filter_not_eq intro!: filter_cong)
  finally show ?case .
qed

lemma checkHandles_unchanged:
  "timer_waits (checkHandles st) = timer_waits st"
  "conns (checkHandles st) = conns st"
  by (simp_all add: checkHandles_fold fold_handle_msg_unchanged)

lemma checkHandles_msgs: "msgs (checkHandles st) = []"
  by (simp add: checkHandles_fold fold_handle_msg_unchanged)

lemma checkHandles_pool:
  "pool_posted (checkHandles st) = pool_posted st @
     map (\<lambda>m. (data_result m, getinfo_private_unchecked (easy_handle m) st))
       (done_msgs (msgs st))"
  by (simp add: checkHandles_fold fold_handle_msg_pool getinfo_msgs_update)

lemma checkHandles_pool_looked_up:
  assumes "\<forall>m \<in> set (done_msgs (msgs st)). fst (easy_private st (easy_handle m)) = CURLE_OK"
  shows "pool_posted (checkHandles st) = pool_posted st @
     map (\<lambda>m. (data_result m, snd (easy_private st (easy_handle m)))) (done_msgs (msgs st))"
proof -
  have "map (\<lambda>m. (data_result m, getinfo_private_unchecked (easy_handle m) st))
          (done_msgs (msgs st)) =
        map (\<lambda>m. (data_result m, snd (easy_private st (easy_handle m)))) (done_msgs (msgs st))"
    using assms by (intro map_cong) (auto simp: getinfo_private_unchecked_def split: prod.splits)
  then show ?thesis by (simp add: checkHandles_pool)
qed

text \<open>
  Where a lookup fails, the task carries what the uninitialised pointer held: here the
  result 7 of transfer 102 is posted for Connection 1.
\<close>

lemma checkHandles_unchecked_lookup:
  "pool_posted (checkHandles (lookup_fails\<lparr>msgs := [queued_failure]\<rparr>)) = [(7, Some 1)]"
  by (simp add: checkHandles_pool getinfo_private_unchecked_def lookup_fails_def
      sample_manager_def queued_failure_def done_msgs_def CURLE_OK_def)

text \<open>
  Claim C6. \<^verbatim>\<open>checkHandles\<close> empties the engine's completion queue. For every
  finished transfer in it, in order, it asks the engine to unregister the transfer and
  posts one task to the pool with the transfer's result; when the lookups of the
  finished transfers' private slots succeed, each task carries the Connection found
  there, the owner of the transfer. The task is queued, and no Connection (so no
  promise) is touched inline. An unregistration the engine refuses only adds a line to
  the log: the transfer is posted like the others and \<^verbatim>\<open>checkHandles\<close> has no failing
  outcome.
\<close>

theorem checkHandles_drains_and_posts:
  "msgs (checkHandles st) = []
   \<and> map fst (pool_posted (checkHandles st)) =
       map fst (pool_posted st) @ map data_result (done_msgs (msgs st))
   \<and> ((\<forall>m \<in> set (done_msgs (msgs st)). fst (easy_private st (easy_handle m)) = CURLE_OK) \<longrightarrow>
        pool_posted (checkHandles st) = pool_posted st @
          map (\<lambda>m. (data_result m, snd (easy_private st (easy_handle m)))) (done_msgs (msgs st)))
   \<and> registered (checkHandles st) =
       filter (\<lambda>e. e \<notin> set (map easy_handle
                  (filter (\<lambda>m. remove_rc st (easy_handle m) = CURLM_OK) (done_msgs (msgs st)))))
         (registered st)
   \<and> logged (checkHandles st) = logged st @
       map (\<lambda>m. Text ''Cannot unregister easy handle'')
         (filter (\<lambda>m. remove_rc st (easy_handle m) \<noteq> CURLM_OK) (done_msgs (msgs st)))
   \<and> conns (checkHandles st) = conns st"
proof -
  have a: "map fst (pool_posted (checkHandles st)) =
       map fst (pool_posted st) @ map data_result (done_msgs (msgs st))"
    by (simp add: checkHandles_pool comp_def)
  have b: "msgs (checkHandles st) = []
     \<and> registered (checkHandles st) =
       filter (\<lambda>e. e \<notin> set (map easy_handle
                  (filter (\<lambda>m. remove_rc st (easy_handle m) = CURLM_OK) (done_msgs (msgs st)))))
         (registered st)
     \<and> logged (checkHandles st) = logged st @
       map (\<lambda>m. Text ''Cannot unregister easy handle'')
         (filter (\<lambda>m. remove_rc st (easy_handle m) \<noteq> CURLM_OK) (done_msgs (msgs st)))
     \<and> conns (checkHandles st) = conns st"
    by (simp add: checkHandles_fold fold_handle_msg_unchanged
        fold_handle_msg_logged fold_handle_msg_registered)
  from a b checkHandles_pool_looked_up [of st] show ?thesis by blast
qed

theorem checkHandles_drains_and_posts_witness:
  "fst (easy_private two_finished 101) = CURLE_OK \<and> fst (easy_private two_finished 102) = CURLE_OK
   \<and> done_msgs (msgs two_finished) = msgs two_finished
   \<and> msgs (checkHandles two_finished) = []
   \<and> pool_posted (checkHandles two_finished) = [(0, Some 1), (7, Some 2)]
   \<and> registered (checkHandles two_finished) = []
   \<and> logged (checkHandles two_finished) = []"
proof -
  have h: "\<forall>m \<in> set (done_msgs (msgs two_finished)).
             fst (easy_private two_finished (easy_handle m)) = CURLE_OK"
    by (simp add: two_finished_def sample_manager_def done_msgs_def queued_failure_def)
  show ?thesis
    using h checkHandles_drains_and_posts [of two_finished]
    by (simp add: two_finished_def sample_manager_def done_msgs_def queued_failure_def
        CURLM_OK_def)
qed

section \<open>The tick timer\<close>

lemma final_simps [simp]: "final (Inl (e, st)) = st" "final (Inr st) = st"
  by (simp_all add: final_def)

lemma thrown_simps [simp]: "thrown (Inl (e, st)) = [e]" "thrown (Inr st) = []"
  by (simp_all add: thrown_def)

lemma timer_cb_waits: "timer_waits (final (timer_cb err reply st)) = timer_waits st"
  by (simp add: timer_cb_def curl_multi_socket_action_def log_error_def Let_def
      checkHandles_unchanged)

lemma performOp_waits:
  "timer_waits (final (performOp c a reply st)) =
     (if rc reply = CURLM_OK \<and> still_running reply \<le> 0 then [] else timer_waits st)"
  by (simp add: performOp_def curl_multi_socket_action_def timer_cancel_def Let_def
      checkHandles_unchanged)

lemma invoke_waits:
  "length (timer_waits (final (invoke h err reply st))) \<le> length (timer_waits st)"
  by (cases h) (simp_all add: invoke_def timer_cb_waits performOp_waits)

lemma curl_timer_cb_waits: "length (timer_waits (final (curl_timer_cb ms reply st))) \<le> 1"
  by (simp add: curl_timer_cb_def Let_def timer_cb_waits timer_async_wait_def
      timer_expires_from_now_def timer_cancel_def)

lemma poll_waits: "timer_waits (poll c a st) = timer_waits st"
  by (simp add: poll_def socket_async_def)

lemma sock_cb_waits: "timer_waits (final (sock_cb e s what p st)) = timer_waits st"
  by (simp add: sock_cb_def poll_waits curl_multi_assign_def Let_def
      split: option.splits prod.splits)

lemma set_exception_waits: "timer_waits (final (set_exception c e st)) = timer_waits st"
  by (simp add: set_exception_def split: option.splits)

lemma finalize_waits: "timer_waits (final (finalize response task st)) = timer_waits st"
  by (simp add: finalize_def buildResponse_def set_exception_waits set_value_def
      split: option.splits)

lemma submission_waits: "timer_waits (final (submission m c cfg add_rc st)) = timer_waits st"
proof -
  have reg: "timer_waits (final (submission_register c add_rc s)) = timer_waits s" for s
    using set_exception_waits [of c _ "log_error _ s"]
    by (simp add: submission_register_def curl_multi_add_handle_def Let_def log_error_def)
  have cfgd: "timer_waits (final (submission_configure m c cfg st)) = timer_waits st"
    by (cases cfg) (simp_all add: submission_configure_def set_exception_waits)
  show ?thesis
  proof (cases "submission_configure m c cfg st")
    case (Inl err)
    with cfgd show ?thesis by (cases err) (simp add: submission_def)
  next
    case (Inr s)
    with cfgd reg [of s] show ?thesis by (simp add: submission_def)
  qed
qed

lemma fire_waits:
  assumes "length (timer_waits st) \<le> 1"
  shows "length (timer_waits (final (fire ev st))) \<le> 1"
proof (cases ev)
  case (Submit m c)
  with assms show ?thesis by (simp add: Manager_handleRequest_def strand_post_def)
next
  case (Run_submission cfg add_rc)
  with assms show ?thesis
    using submission_waits [of _ _ cfg add_rc "st\<lparr>strand_posted := tl (strand_posted st)\<rparr>"]
    by (auto split: list.splits)
next
  case (Socket_interest e s what p)
  with assms show ?thesis by (simp add: sock_cb_waits)
next
  case (Timeout_hint ms reply)
  with curl_timer_cb_waits [of ms reply st] show ?thesis by simp
next
  case Timer_expires
  then show ?thesis by simp
next
  case (Run_expired reply)
  show ?thesis
  proof (cases "expired_waits st")
    case Nil
    with assms Run_expired show ?thesis by simp
  next
    case (Cons w ws)
    with assms Run_expired
      invoke_waits [of "tw_handler w" False reply "st\<lparr>expired_waits := ws\<rparr>"]
    show ?thesis by simp
  qed
next
  case Run_aborted
  show ?thesis
  proof (cases "cancelled_waits st")
    case Nil
    with assms Run_aborted show ?thesis by simp
  next
    case (Cons w ws)
    with assms Run_aborted
      invoke_waits [of "tw_handler w" True no_reply "st\<lparr>cancelled_waits := ws\<rparr>"]
    show ?thesis by simp
  qed
next
  case (Io_ready i reply)
  with assms
    invoke_waits [of "io_handler (armed st ! i)" False reply
      "st\<lparr>armed := take i (armed st) @ drop (Suc i) (armed st)\<rparr>"]
  show ?thesis by simp
next
  case (Run_finalize response)
  show ?thesis
  proof (cases "pool_posted st")
    case Nil
    with assms Run_finalize show ?thesis by simp
  next
    case (Cons task rest)
    with assms Run_finalize finalize_waits [of response task "st\<lparr>pool_posted := rest\<rparr>"]
    show ?thesis by simp
  qed
qed

lemma run_waits:
  "length (timer_waits st) \<le> 1 \<Longrightarrow> length (timer_waits (snd (run evs st))) \<le> 1"
proof (induction evs arbitrary: st)
  case Nil
  then show ?case by simp
next
  case (Cons ev evs)
  from Cons.IH [OF fire_waits [OF Cons.prems, of ev]]
  show ?case by (simp add: Let_def case_prod_beta)
qed

text \<open>
  Claim C4. On a timeout hint \<open>timeout_ms\<close>, \<^verbatim>\<open>curl_timer_cb\<close> first cancels the pending
  waits of the tick timer. A positive hint then arms one wait of that many milliseconds; a
  zero or negative hint runs \<^verbatim>\<open>timer_cb\<close> at once, without error, as the timeout
  pseudo-action. Cancelling leaves no wait pending, and along every run of events of a
  reactor that starts with at most one pending wait there is at most one pending wait,
  exceptions or not.
\<close>

theorem curl_timer_cb_single_timer:
  "(0 < timeout_ms \<longrightarrow>
      curl_timer_cb timeout_ms reply st =
        Inr ((timer_cancel st)\<lparr>timer_expiry := Some timeout_ms, timer_waits := [tick_wait]\<rparr>))
   \<and> (timeout_ms \<le> 0 \<longrightarrow>
      curl_timer_cb timeout_ms reply st = timer_cb False reply (timer_cancel st))
   \<and> timer_waits (timer_cancel st) = []
   \<and> (length (timer_waits st) \<le> 1 \<longrightarrow> length (timer_waits (snd (run evs st))) \<le> 1)"
  using run_waits [of st evs]
  by (simp add: curl_timer_cb_def Let_def timer_async_wait_def
      timer_expires_from_now_def timer_cancel_def tick_wait_def)

theorem curl_timer_cb_single_timer_witness:
  "curl_timer_cb 5 no_reply sample_manager =
     Inr ((timer_cancel sample_manager)\<lparr>timer_expiry := Some 5, timer_waits := [tick_wait]\<rparr>)
   \<and> curl_timer_cb 0 no_reply sample_manager = timer_cb False no_reply (timer_cancel sample_manager)
   \<and> length (timer_waits sample_manager) \<le> 1
   \<and> length (timer_waits (snd (run [Timeout_hint 5 no_reply, Timeout_hint 7 no_reply,
         Timer_expires, Run_expired no_reply] sample_manager))) \<le> 1"
proof -
  have h: "length (timer_waits sample_manager) \<le> 1" "(0::int) < 5" "(0::int) \<le> 0"
    by (simp_all add: sample_manager_def)
  show ?thesis
    using h curl_timer_cb_single_timer [of 5 no_reply sample_manager
        "[Timeout_hint 5 no_reply, Timeout_hint 7 no_reply, Timer_expires, Run_expired no_reply]"]
      curl_timer_cb_single_timer [of 0 no_reply sample_manager "[]"]
    by blast
qed

section \<open>The step function\<close>

text \<open>
  Claim C5, as the code has it. When the engine's step succeeds, \<^verbatim>\<open>performOp\<close> drains
  the completion queue (the transfers queued before and those the step finished are all
  posted) and then cancels the tick timer if the engine reports no transfer still
  running, leaving it alone otherwise. The timeout pseudo-action, \<^verbatim>\<open>timer_cb\<close> entered
  without error, drains the queue in the same way after a successful step and leaves the
  tick timer as it is, whatever the engine reports.
\<close>

theorem step_drains_and_cancels:
  "rc reply = CURLM_OK \<longrightarrow>
     (\<exists>st'. performOp c action reply st = Inr st'
        \<and> msgs st' = []
        \<and> pool_posted st' = pool_posted st @
             map (\<lambda>m. (data_result m, getinfo_private_unchecked (easy_handle m) st))
               (done_msgs (msgs st @ finished reply))
        \<and> timer_waits st' = (if still_running reply \<le> 0 then [] else timer_waits st))
     \<and> (\<exists>st'. timer_cb False reply st = Inr st'
        \<and> msgs st' = []
        \<and> pool_posted st' = pool_posted st @
             map (\<lambda>m. (data_result m, getinfo_private_unchecked (easy_handle m) st))
               (done_msgs (msgs st @ finished reply))
        \<and> timer_waits st' = timer_waits st)"
  by (simp add: performOp_def timer_cb_def curl_multi_socket_action_def timer_cancel_def
      Let_def checkHandles_unchanged checkHandles_msgs checkHandles_pool
      getinfo_msgs_update)

theorem step_drains_and_cancels_witness:
  "rc done_reply = CURLM_OK
   \<and> (\<exists>st'. performOp 1 CURL_POLL_IN done_reply (sample_manager\<lparr>timer_waits := [tick_wait]\<rparr>) = Inr st'
        \<and> msgs st' = [] \<and> pool_posted st' = [(0, Some 1)] \<and> timer_waits st' = [])
   \<and> (\<exists>st'. timer_cb False done_reply (sample_manager\<lparr>timer_waits := [tick_wait]\<rparr>) = Inr st'
        \<and> msgs st' = [] \<and> pool_posted st' = [(0, Some 1)] \<and> timer_waits st' = [tick_wait])"
  using step_drains_and_cancels [of done_reply 1 CURL_POLL_IN "sample_manager\<lparr>timer_waits := [tick_wait]\<rparr>"]
  by (simp add: done_reply_def sample_manager_def done_msgs_def getinfo_private_unchecked_def)

text \<open>
  Claim C5 as written does not hold for the timeout pseudo-action. A first wait expires
  and its handler is queued; a new hint arms a second wait; the queued handler then runs
  \<^verbatim>\<open>timer_cb\<close>, the engine reports no transfer running, nothing is thrown, and the
  second wait is still pending.
\<close>

theorem timer_cb_keeps_timer_counterexample:
  "rc no_reply = CURLM_OK \<and> still_running no_reply = 0
   \<and> fst (run [Timeout_hint 5 no_reply, Timer_expires, Timeout_hint 7 no_reply,
               Run_expired no_reply] sample_manager) = []
   \<and> timer_waits (snd (run [Timeout_hint 5 no_reply, Timer_expires, Timeout_hint 7 no_reply,
               Run_expired no_reply] sample_manager)) = [tick_wait]
   \<and> timer_waits (final (timer_cb False no_reply (sample_manager\<lparr>timer_waits := [tick_wait]\<rparr>))) =
       [tick_wait]"
  by (simp add: timer_cb_waits no_reply_def curl_timer_cb_def timer_async_wait_def
      timer_expires_from_now_def timer_cancel_def invoke_def timer_cb_def
      curl_multi_socket_action_def checkHandles_fold sample_manager_def tick_wait_def
      Let_def)

section \<open>Per-request errors\<close>

lemma set_exception_unsatisfied:
  assumes "satisfied (c_promise (conns st c)) = None"
  shows "\<exists>st'. set_exception c e st = Inr st'
           \<and> satisfied (c_promise (conns st' c)) = Some (Has_exception e)
           \<and> (\<forall>c'. c' \<noteq> c \<longrightarrow> conns st' c' = conns st c')
           \<and> registered st' = registered st"
  using assms by (simp add: set_exception_def)







section \<open>Submission\<close>

text \<open>
  Claim C1 at a request whose configuration fails while the engine accepts the handle:
  the task stores the configuration error in the promise and, the \<^verbatim>\<open>catch\<close> block having
  no \<^verbatim>\<open>return\<close>, goes on to \<^verbatim>\<open>curl_multi_add_handle\<close>: the transfer of Connection 1 is
  registered all the same.
\<close>

theorem submission_registers_unconfigured:
  "registered (final (submission GET 1 (Some bad_url) CURLM_OK sample_manager)) =
     [c_handle (sample_connection 1)]
   \<and> satisfied (c_promise (conns (final (submission GET 1 (Some bad_url) CURLM_OK sample_manager)) 1)) =
     Some (Has_exception bad_url)"
  by (simp add: submission_def submission_configure_def submission_register_def
      set_exception_def curl_multi_add_handle_def sample_manager_def sample_connection_def
      unset_promise_def)

section \<open>Fulfilment of the promise\<close>













section \<open>Serialization of the handlers\<close>

text \<open>
  Claim C8 at a positive timeout hint. \<^verbatim>\<open>curl_timer_cb\<close> hands the handler of the tick
  timer to \<^verbatim>\<open>async_wait\<close> as it is, where \<^verbatim>\<open>poll\<close> wraps each socket handler in the
  strand. The tick handler, once run, removes a finished transfer from the registry: a
  mutation of reactor state that is not made under the strand.
\<close>

theorem tick_handler_not_wrapped:
  "map tw_exec (timer_waits (final (curl_timer_cb 5 no_reply sample_manager))) = [Unwrapped]
   \<and> map io_exec (armed (poll 1 CURL_POLL_INOUT sample_manager)) = [Through_strand, Through_strand]
   \<and> registered (sample_manager\<lparr>registered := [101]\<rparr>) = [101]
   \<and> registered (final (invoke Bound_timer_cb False done_reply
         (sample_manager\<lparr>registered := [101]\<rparr>))) = []"
  by (simp add: curl_timer_cb_def timer_async_wait_def timer_expires_from_now_def
      timer_cancel_def poll_def socket_async_def CURL_POLL_INOUT_def CURL_POLL_IN_def
      CURL_POLL_OUT_def invoke_def timer_cb_def done_reply_def curl_multi_socket_action_def
      checkHandles_fold handle_msg_def curl_multi_remove_handle_def pool_post_def
      sample_manager_def CURLM_OK_def Let_def)

section \<open>Socket interest\<close>

lemma poll_arms:
  "armed (poll c what st) = armed st @ map (arming c what) (matching_ops what)"
  "(poll c what st)\<lparr>armed := armed st\<rparr> = st"
  by (simp_all add: poll_def socket_async_def arming_def matching_ops_def)

text \<open>
  Claim C7, as the code has it. On \<^verbatim>\<open>CURL_POLL_REMOVE\<close> \<^verbatim>\<open>sock_cb\<close> does nothing. On any
  other interest for a socket the engine has a Connection for, it arms the operations
  matching the interest for that Connection. On the first notification for a socket (no
  Connection yet) it looks the Connection up in the transfer's private slot: when the
  lookup succeeds and yields a Connection, it associates the socket with it through
  \<^verbatim>\<open>curl_multi_assign\<close> and arms the matching operations; when the lookup fails, it throws,
  associating and arming nothing. Arming adds a read for \<^verbatim>\<open>IN\<close>, a write for
  \<^verbatim>\<open>OUT\<close>, a read then a write for \<^verbatim>\<open>INOUT\<close>, nothing for any other interest, and
  changes nothing else; each operation's handler is wrapped in the strand and, once
  invoked, is \<^verbatim>\<open>performOp\<close> for that Connection and the interest observed.
\<close>

theorem sock_cb_associates_and_arms:
  "(what = CURL_POLL_REMOVE \<longrightarrow> sock_cb e s what p st = Inr st)
   \<and> (what \<noteq> CURL_POLL_REMOVE \<and> p = Some c \<longrightarrow>
        sock_cb e s what p st = Inr (poll c what st))
   \<and> (what \<noteq> CURL_POLL_REMOVE \<and> p = None \<and> easy_private st e = (CURLE_OK, Some c) \<longrightarrow>
        sock_cb e s what p st = Inr (poll c what (st\<lparr>assigned := (assigned st)(s := Some c)\<rparr>)))
   \<and> (what \<noteq> CURL_POLL_REMOVE \<and> p = None \<and> fst (easy_private st e) \<noteq> CURLE_OK \<longrightarrow>
        sock_cb e s what p st =
          Inl (Runtime_error (Text_easy_strerror ''Cannot get private info:''
                 (fst (easy_private st e))), st))
   \<and> armed (poll c what st) = armed st @ map (arming c what) (matching_ops what)
   \<and> (poll c what st)\<lparr>armed := armed st\<rparr> = st
   \<and> invoke (io_handler (arming c what k)) False reply st = performOp c what reply st"
  by (auto simp: sock_cb_def poll_arms curl_multi_assign_def invoke_def arming_def
      split: prod.splits)

theorem sock_cb_associates_and_arms_witness:
  "CURL_POLL_INOUT \<noteq> CURL_POLL_REMOVE
   \<and> easy_private sample_manager 101 = (CURLE_OK, Some 1)
   \<and> fst (easy_private lookup_fails 101) \<noteq> CURLE_OK
   \<and> sock_cb 101 11 CURL_POLL_REMOVE (Some 1) sample_manager = Inr sample_manager
   \<and> sock_cb 101 11 CURL_POLL_INOUT (Some 1) sample_manager =
       Inr (poll 1 CURL_POLL_INOUT sample_manager)
   \<and> sock_cb 101 11 CURL_POLL_INOUT None sample_manager =
       Inr (poll 1 CURL_POLL_INOUT
             (sample_manager\<lparr>assigned := (assigned sample_manager)(11 := Some 1)\<rparr>))
   \<and> sock_cb 101 11 CURL_POLL_INOUT None lookup_fails =
       Inl (Runtime_error (Text_easy_strerror ''Cannot get private info:''
              (fst (easy_private lookup_fails 101))), lookup_fails)
   \<and> armed (poll 1 CURL_POLL_INOUT sample_manager) =
       [arming 1 CURL_POLL_INOUT Async_read_some, arming 1 CURL_POLL_INOUT Async_write_some]"
proof -
  have h: "CURL_POLL_INOUT \<noteq> CURL_POLL_REMOVE"
    "easy_private sample_manager 101 = (CURLE_OK, Some 1)"
    "fst (easy_private lookup_fails 101) \<noteq> CURLE_OK"
    by (simp_all add: CURL_POLL_INOUT_def CURL_POLL_REMOVE_def sample_manager_def
        lookup_fails_def CURLE_OK_def)
  have ops: "matching_ops CURL_POLL_INOUT = [Async_read_some, Async_write_some]"
    "armed sample_manager = []"
    by (simp_all add: matching_ops_def CURL_POLL_INOUT_def CURL_POLL_IN_def CURL_POLL_OUT_def
        sample_manager_def)
  show ?thesis
    using h ops
      sock_cb_associates_and_arms [of CURL_POLL_REMOVE 101 11 "Some 1" sample_manager 1]
      sock_cb_associates_and_arms [of CURL_POLL_INOUT 101 11 "Some 1" sample_manager 1]
      sock_cb_associates_and_arms [of CURL_POLL_INOUT 101 11 None sample_manager 1]
      sock_cb_associates_and_arms [of CURL_POLL_INOUT 101 11 None lookup_fails 1]
    by simp
qed

text \<open>
  Claim C7 as written does not hold when the lookup of the private slot fails on the
  first notification for socket 11: \<^verbatim>\<open>sock_cb\<close> throws, the socket stays without
  Connection and no operation is armed.
\<close>

theorem sock_cb_lookup_failure_counterexample:
  "CURL_POLL_IN \<noteq> CURL_POLL_REMOVE
   \<and> sock_cb 101 11 CURL_POLL_IN None lookup_fails =
       Inl (Runtime_error (Text_easy_strerror ''Cannot get private info:'' 43), lookup_fails)
   \<and> assigned lookup_fails 11 = None \<and> armed lookup_fails = []"
  by (simp add: sock_cb_def lookup_fails_def sample_manager_def CURL_POLL_IN_def
      CURL_POLL_REMOVE_def CURLE_OK_def)

section \<open>Construction\<close>

lemmas ctor_defs =
  HttpClient_ctor_def Manager_ctor_def manager_setopt_def call_once_init_curl_def
  init_curl_def called_def process_after_def reactor_ok_def ThreadPool_start_def Let_def

lemma ctor_bootstraps:
  "bootstraps (process_after (HttpClient_ctor n env ps)) =
     bootstraps ps @
       (if reactor_ok env \<and> \<not> curl_init_flag ps then [Curl_global_init (global_init_rc env)] else [])"
  by (simp add: ctor_defs bootstraps_def)

lemma ctor_flag:
  "curl_init_flag (process_after (HttpClient_ctor n env ps)) =
     (curl_init_flag ps \<or> reactor_ok env \<and> global_init_rc env = 0)"
  by (auto simp: ctor_defs)

lemma construct_all_successes:
  "length (filter (\<lambda>c. c = Curl_global_init 0) (bootstraps ps)) = (if curl_init_flag ps then 1 else 0)
   \<Longrightarrow> length (filter (\<lambda>c. c = Curl_global_init 0) (bootstraps (construct_all n envs ps))) =
         (if curl_init_flag (construct_all n envs ps) then 1 else 0)"
proof (induction envs arbitrary: ps)
  case Nil
  then show ?case by simp
next
  case (Cons env envs)
  let ?ps = "process_after (HttpClient_ctor n env ps)"
  have "length (filter (\<lambda>c. c = Curl_global_init 0) (bootstraps ?ps)) =
          (if curl_init_flag ?ps then 1 else 0)"
    using Cons.prems by (auto simp: ctor_bootstraps ctor_flag)
  from Cons.IH [OF this] show ?case by simp
qed

lemma construct_all_when_ok:
  "\<forall>env \<in> set envs. reactor_ok env \<and> global_init_rc env = 0 \<Longrightarrow>
   bootstraps (construct_all n envs ps) =
     bootstraps ps @ (if curl_init_flag ps \<or> envs = [] then [] else [Curl_global_init 0])"
proof (induction envs arbitrary: ps)
  case Nil
  then show ?case by simp
next
  case (Cons env envs)
  let ?ps = "process_after (HttpClient_ctor n env ps)"
  have "bootstraps (construct_all n envs ?ps) =
          bootstraps ?ps @ (if curl_init_flag ?ps \<or> envs = [] then [] else [Curl_global_init 0])"
    using Cons.prems by (intro Cons.IH) simp
  with Cons.prems show ?case by (simp add: ctor_bootstraps ctor_flag)
qed

lemma fresh_process_simps:
  "curl_init_flag fresh_process = False" "bootstraps fresh_process = []"
  by (simp_all add: fresh_process_def bootstraps_def)

lemma sample_env_ok: "reactor_ok sample_env" "global_init_rc sample_env = 0"
  "reactor_ok failing_env" "global_init_rc failing_env = 2"
  by (simp_all add: reactor_ok_def sample_env_def failing_env_def)

text \<open>
  The calls of one construction in a new process, in order: the reactor's
  \<^verbatim>\<open>curl_multi_init\<close> and \<^verbatim>\<open>curl_multi_setopt\<close> come before \<^verbatim>\<open>curl_global_init\<close>.
\<close>

lemma construction_call_order:
  "calls (process_after (HttpClient_ctor 4 sample_env fresh_process)) =
     [ThreadPool_ctor 4, Curl_multi_init,
      Curl_multi_setopt CURLMOPT_SOCKETFUNCTION, Curl_multi_setopt CURLMOPT_SOCKETDATA,
      Curl_multi_setopt CURLMOPT_TIMERFUNCTION, Curl_multi_setopt CURLMOPT_TIMERDATA,
      Curl_global_init 0, ThreadPool_started]"
  by (simp add: ctor_defs sample_env_def fresh_process_def)

text \<open>
  Claim C9, as the code has it. A construction whose reactor is set up without error,
  in a process whose bootstrap has succeeded before or succeeds now, returns a client
  with the ThreadPool and an idle reactor created and the pool started last; it calls
  \<^verbatim>\<open>curl_global_init\<close> only if no earlier call has succeeded. A bootstrap that fails
  makes the construction throw and leaves the guard open, so the next construction tries
  again. Over any number of constructions in a new process at most one bootstrap
  succeeds, and when every construction succeeds exactly one call is made, however many
  clients there are.
\<close>

theorem bootstrap_guarded:
  "(reactor_ok env \<and> (curl_init_flag ps \<or> global_init_rc env = 0) \<longrightarrow>
      (\<exists>cl ps'. HttpClient_ctor n env ps = Inr (cl, ps')
         \<and> p_nb_thread (c_pool cl) = n \<and> p_running (c_pool cl)
         \<and> registered (mgr cl) = [] \<and> timer_waits (mgr cl) = []
         \<and> ThreadPool_ctor n \<in> set (calls ps') \<and> Curl_multi_init \<in> set (calls ps')
         \<and> last (calls ps') = ThreadPool_started
         \<and> curl_init_flag ps'
         \<and> bootstraps ps' =
             bootstraps ps @ (if curl_init_flag ps then [] else [Curl_global_init 0])))
   \<and> (reactor_ok env \<and> \<not> curl_init_flag ps \<and> global_init_rc env \<noteq> 0 \<longrightarrow>
      (\<exists>ps'. HttpClient_ctor n env ps = Inl (Runtime_error (Text ''Cannot initialize curl''), ps')
         \<and> \<not> curl_init_flag ps'))
   \<and> length (filter (\<lambda>c. c = Curl_global_init 0)
        (bootstraps (construct_all n envs fresh_process))) \<le> 1
   \<and> (envs \<noteq> [] \<and> (\<forall>env \<in> set envs. reactor_ok env \<and> global_init_rc env = 0) \<longrightarrow>
        bootstraps (construct_all n envs fresh_process) = [Curl_global_init 0])"
proof -
  have a: "reactor_ok env \<and> (curl_init_flag ps \<or> global_init_rc env = 0) \<longrightarrow>
      (\<exists>cl ps'. HttpClient_ctor n env ps = Inr (cl, ps')
         \<and> p_nb_thread (c_pool cl) = n \<and> p_running (c_pool cl)
         \<and> registered (mgr cl) = [] \<and> timer_waits (mgr cl) = []
         \<and> ThreadPool_ctor n \<in> set (calls ps') \<and> Curl_multi_init \<in> set (calls ps')
         \<and> last (calls ps') = ThreadPool_started
         \<and> curl_init_flag ps'
         \<and> bootstraps ps' =
             bootstraps ps @ (if curl_init_flag ps then [] else [Curl_global_init 0]))"
    by (auto simp: ctor_defs bootstraps_def)
  have b: "reactor_ok env \<and> \<not> curl_init_flag ps \<and> global_init_rc env \<noteq> 0 \<longrightarrow>
      (\<exists>ps'. HttpClient_ctor n env ps = Inl (Runtime_error (Text ''Cannot initialize curl''), ps')
         \<and> \<not> curl_init_flag ps')"
    by (auto simp: ctor_defs)
  have c: "length (filter (\<lambda>c. c = Curl_global_init 0)
        (bootstraps (construct_all n envs fresh_process))) \<le> 1"
    using construct_all_successes [of fresh_process n envs]
    by (simp add: fresh_process_simps)
  have d: "envs \<noteq> [] \<and> (\<forall>env \<in> set envs. reactor_ok env \<and> global_init_rc env = 0) \<longrightarrow>
        bootstraps (construct_all n envs fresh_process) = [Curl_global_init 0]"
    using construct_all_when_ok [of envs n fresh_process]
    by (simp add: fresh_process_simps)
  from a b c d show ?thesis by blast
qed

theorem bootstrap_guarded_witness:
  "reactor_ok sample_env \<and> global_init_rc sample_env = 0
   \<and> reactor_ok failing_env \<and> \<not> curl_init_flag fresh_process \<and> global_init_rc failing_env \<noteq> 0
   \<and> [sample_env, sample_env, sample_env] \<noteq> []
   \<and> (\<exists>cl ps'. HttpClient_ctor 4 sample_env fresh_process = Inr (cl, ps')
         \<and> p_running (c_pool cl) \<and> last (calls ps') = ThreadPool_started
         \<and> bootstraps ps' = [Curl_global_init 0])
   \<and> (\<exists>ps'. HttpClient_ctor 4 failing_env fresh_process =
               Inl (Runtime_error (Text ''Cannot initialize curl''), ps'))
   \<and> bootstraps (construct_all 4 [sample_env, sample_env, sample_env] fresh_process) =
       [Curl_global_init 0]"
proof -
  have h: "reactor_ok sample_env \<and> (curl_init_flag fresh_process \<or> global_init_rc sample_env = 0)"
    "reactor_ok failing_env \<and> \<not> curl_init_flag fresh_process \<and> global_init_rc failing_env \<noteq> 0"
    "[sample_env, sample_env, sample_env] \<noteq> [] \<and>
     (\<forall>env \<in> set [sample_env, sample_env, sample_env]. reactor_ok env \<and> global_init_rc env = 0)"
    by (simp_all add: sample_env_ok fresh_process_simps)
  note t1 = bootstrap_guarded [of sample_env fresh_process 4 "[sample_env, sample_env, sample_env]"]
  note t2 = bootstrap_guarded [of failing_env fresh_process 4 "[]"]
  have r1: "\<exists>cl ps'. HttpClient_ctor 4 sample_env fresh_process = Inr (cl, ps')
         \<and> p_running (c_pool cl) \<and> last (calls ps') = ThreadPool_started
         \<and> bootstraps ps' = [Curl_global_init 0]"
    using t1 h(1) by (auto simp: fresh_process_simps)
  have r2: "\<exists>ps'. HttpClient_ctor 4 failing_env fresh_process =
               Inl (Runtime_error (Text ''Cannot initialize curl''), ps')"
    using t2 h(2) by blast
  have r3: "bootstraps (construct_all 4 [sample_env, sample_env, sample_env] fresh_process) =
       [Curl_global_init 0]"
    using t1 h(3) by blast
  from h r1 r2 r3 show ?thesis by (simp add: fresh_process_simps)
qed

text \<open>
  Claim C9 as written does not hold when the first bootstrap fails: the first
  construction throws, the second runs the bootstrap again, and the process has called
  \<^verbatim>\<open>curl_global_init\<close> twice.
\<close>

theorem bootstrap_retried_counterexample:
  "bootstraps (construct_all 4 [failing_env, sample_env] fresh_process) =
     [Curl_global_init 2, Curl_global_init 0]"
  by (simp add: ctor_bootstraps ctor_flag sample_env_ok fresh_process_simps)

section \<open>The entry point of the facade\<close>

text \<open>
  Claim C10. \<^verbatim>\<open>HttpClient::handleRequest\<close> serves the request with the Connection it
  carries, else with a new one. Provided \<^verbatim>\<open>init\<close> leaves that Connection with a promise
  whose future has not been taken, the call returns the future of that very promise,
  having attached the request and posted the submission to the strand after taking the
  future; on return nothing is registered with the engine and the promise is as
  \<^verbatim>\<open>init\<close> left it, since configuration and registration happen only when the posted
  task runs, whatever their outcome will be. If the future were already taken, the call
  would throw before anything is handed to the reactor.
\<close>

theorem handleRequest_returns_future:
  "(\<not> retrieved (c_promise (init (conns (mgr cl) (chosen_connection fresh req)))) \<longrightarrow>
      (\<exists>cl'. HttpClient_handleRequest init fresh m req cl =
                Inr (Future (chosen_connection fresh req), cl')
         \<and> strand_posted (mgr cl') = strand_posted (mgr cl) @ [(m, chosen_connection fresh req)]
         \<and> registered (mgr cl') = registered (mgr cl)
         \<and> satisfied (c_promise (conns (mgr cl') (chosen_connection fresh req))) =
             satisfied (c_promise (init (conns (mgr cl) (chosen_connection fresh req))))
         \<and> retrieved (c_promise (conns (mgr cl') (chosen_connection fresh req)))
         \<and> c_request (conns (mgr cl') (chosen_connection fresh req)) =
             Some (req\<lparr>r_connection := None\<rparr>)
         \<and> (strand_posted (mgr cl) = [] \<longrightarrow>
              fire (Run_submission cfg add_rc) (mgr cl') =
                submission m (chosen_connection fresh req) cfg add_rc
                  ((mgr cl')\<lparr>strand_posted := []\<rparr>))))
   \<and> (retrieved (c_promise (init (conns (mgr cl) (chosen_connection fresh req)))) \<longrightarrow>
      (\<exists>st. HttpClient_handleRequest init fresh m req cl =
               Inl (Future_error Future_already_retrieved, st)
         \<and> strand_posted st = strand_posted (mgr cl)))"
  by (simp add: HttpClient_handleRequest_def get_future_def Manager_handleRequest_def
      strand_post_def chosen_connection_def Let_def)

theorem handleRequest_returns_future_witness:
  "\<not> retrieved (c_promise (reset_promise (conns (mgr sample_client) (chosen_connection 5 carried_request))))
   \<and> \<not> retrieved (c_promise (reset_promise (conns (mgr sample_client) (chosen_connection 5 plain_request))))
   \<and> strand_posted (mgr sample_client) = []
   \<and> (\<exists>cl'. HttpClient_handleRequest reset_promise 5 GET carried_request sample_client =
               Inr (Future 3, cl')
         \<and> strand_posted (mgr cl') = [(GET, 3)]
         \<and> fire (Run_submission (Some bad_url) 7) (mgr cl') =
             submission GET 3 (Some bad_url) 7 ((mgr cl')\<lparr>strand_posted := []\<rparr>))
   \<and> (\<exists>cl'. HttpClient_handleRequest reset_promise 5 POST plain_request sample_client =
               Inr (Future 5, cl')
         \<and> strand_posted (mgr cl') = [(POST, 5)])"
proof -
  have h: "\<not> retrieved (c_promise (reset_promise (conns (mgr sample_client) (chosen_connection 5 carried_request))))"
    "\<not> retrieved (c_promise (reset_promise (conns (mgr sample_client) (chosen_connection 5 plain_request))))"
    "strand_posted (mgr sample_client) = []"
    "chosen_connection 5 carried_request = 3" "chosen_connection 5 plain_request = 5"
    by (simp_all add: reset_promise_def unset_promise_def sample_client_def sample_manager_def
        chosen_connection_def carried_request_def plain_request_def)
  show ?thesis
    using h
      handleRequest_returns_future [of reset_promise sample_client 5 carried_request GET "Some bad_url" 7]
      handleRequest_returns_future [of reset_promise sample_client 5 plain_request POST None 0]
    by auto
qed

end
